theory Spec2Isabelle
  imports Main "HOL-Library.Multiset"
begin

section \<open>Python strings\<close>

text \<open>
  A Python \<open>str\<close> is modelled as a \<open>string\<close>; a \<open>char\<close> stands for the code point of
  the same number, so the model covers the texts whose code points are below 256.
  The three character classes are Python's own on that range: \<open>str.isspace\<close>,
  \<open>str.isalpha\<close> and \<open>str.isdecimal\<close>.
\<close>

definition isspace_char :: "char \<Rightarrow> bool" where
  "isspace_char c =
     (let n = (of_char c :: nat)
      in (9 \<le> n \<and> n \<le> 13) \<or> (28 \<le> n \<and> n \<le> 32) \<or> n = 133 \<or> n = 160)"

definition isalpha_char :: "char \<Rightarrow> bool" where
  "isalpha_char c =
     (let n = (of_char c :: nat)
      in (65 \<le> n \<and> n \<le> 90) \<or> (97 \<le> n \<and> n \<le> 122) \<or> n = 170 \<or> n = 181 \<or> n = 186
         \<or> (192 \<le> n \<and> n \<le> 214) \<or> (216 \<le> n \<and> n \<le> 246) \<or> (248 \<le> n \<and> n \<le> 255))"

definition isdecimal_char :: "char \<Rightarrow> bool" where
  "isdecimal_char c = (let n = (of_char c :: nat) in 48 \<le> n \<and> n \<le> 57)"

text \<open>\<open>s.isalpha()\<close> and \<open>s.isdecimal()\<close>: every character in the class, and at least one.\<close>

definition isalpha :: "string \<Rightarrow> bool" where
  "isalpha s = (s \<noteq> [] \<and> list_all isalpha_char s)"

definition isdecimal :: "string \<Rightarrow> bool" where
  "isdecimal s = (s \<noteq> [] \<and> list_all isdecimal_char s)"

text \<open>
  \<open>int(s)\<close> on a string of decimal digits; \<open>None\<close> is Python's \<open>ValueError\<close>. The source
  calls it only on a token for which \<open>isdecimal\<close> holds, so signs, blanks and underscores,
  which \<open>int\<close> also reads, are left out. Python converts no string of more than
  \<open>sys.int_info.default_max_str_digits\<close> digits, leading zeros counted: that is a
  \<open>ValueError\<close> too.
\<close>

definition max_str_digits :: nat where
  "max_str_digits = 4300"

definition digit_val :: "char \<Rightarrow> nat" where
  "digit_val c = (of_char c :: nat) - 48"

definition py_int :: "string \<Rightarrow> nat option" where
  "py_int s =
     (if isdecimal s \<and> length s \<le> max_str_digits
      then Some (foldl (\<lambda>acc c. 10 * acc + digit_val c) 0 s)
      else None)"

text \<open>\<open>s.strip()\<close>: whitespace removed at both ends.\<close>

definition strip :: "string \<Rightarrow> string" where
  "strip s = rev (dropWhile isspace_char (rev (dropWhile isspace_char s)))"

text \<open>
  \<open>s.split()\<close>: the maximal runs of non-whitespace characters, left to right. The first
  argument of \<open>split_aux\<close> is the token being read.
\<close>

primrec split_aux :: "string \<Rightarrow> string \<Rightarrow> string list" where
  "split_aux cur [] = (if cur = [] then [] else [cur])"
| "split_aux cur (c # cs) =
     (if isspace_char c
      then (if cur = [] then split_aux [] cs else cur # split_aux [] cs)
      else split_aux (cur @ [c]) cs)"

definition split_ws :: "string \<Rightarrow> string list" where
  "split_ws s = split_aux [] s"

text \<open>\<open>s.startswith(p)\<close> and \<open>p in s\<close>.\<close>

primrec startswith :: "string \<Rightarrow> string \<Rightarrow> bool" where
  "startswith s [] = True"
| "startswith s (p # ps) = (case s of [] \<Rightarrow> False | c # cs \<Rightarrow> c = p \<and> startswith cs ps)"

primrec contains :: "string \<Rightarrow> string \<Rightarrow> bool" where
  "contains [] p = (p = [])"
| "contains (c # cs) p = (startswith (c # cs) p \<or> contains cs p)"

text \<open>
  \<open>s.partition(sep)\<close> for a non-empty separator: the text before the first occurrence,
  the separator, the text after it; \<open>(s, '''', '''')\<close> when there is none.
\<close>

primrec find_sep :: "string \<Rightarrow> string \<Rightarrow> (string \<times> string) option" where
  "find_sep sep [] = (if sep = [] then Some ([], []) else None)"
| "find_sep sep (c # cs) =
     (if startswith (c # cs) sep then Some ([], drop (length sep) (c # cs))
      else map_option (\<lambda>(a, b). (c # a, b)) (find_sep sep cs))"

definition partition_str :: "string \<Rightarrow> string \<Rightarrow> string \<times> string \<times> string" where
  "partition_str s sep =
     (case find_sep sep s of None \<Rightarrow> (s, [], []) | Some (a, b) \<Rightarrow> (a, sep, b))"

text \<open>\<open>sep.join(xs)\<close>.\<close>

fun join :: "string \<Rightarrow> string list \<Rightarrow> string" where
  "join sep [] = []"
| "join sep [x] = x"
| "join sep (x # y # ys) = x @ sep @ join sep (y # ys)"

text \<open>\<open>str(n)\<close> for a non-negative integer, as \<open>format\<close> prints a line number.\<close>

fun str_nat :: "nat \<Rightarrow> string" where
  "str_nat n =
     (if n < 10 then [char_of (48 + n)]
      else str_nat (n div 10) @ [char_of (48 + n mod 10)])"

declare str_nat.simps [simp del]

section \<open>Errors\<close>

text \<open>
  Every exception the modelled code can end with is a value. \<open>ParseError\<close> is the
  program's own exception and holds the formatted message. \<open>RuntimeError\<close> is what
  Python (PEP 479) makes of a \<open>StopIteration\<close> that leaves a generator body.
  \<open>Uncaught\<close> wraps what \<open>ast.literal_eval\<close> raises.
\<close>

datatype lib_error = ValueError | SyntaxError | OtherError

datatype error = ParseError string | RuntimeError | IndexError | TypeError | Uncaught lib_error

definition formatted :: "nat \<Rightarrow> string \<Rightarrow> error" where
  "formatted lineno message =
     ParseError (''Error at line '' @ str_nat lineno @ '': '' @ message)"

section \<open>Identifiers\<close>

datatype IdentifierType =
  PARAM_DOUBLE | PARAM_SINGLE_R | PARAM_SINGLE_L | DRAIN_OUT | DRAIN_IN | INITIAL_COND

text \<open>\<open>right_symbols\<close> is \<open>None\<close> where the constructor's default is kept.\<close>

datatype Identifier =
  Identifier (itype: IdentifierType) (left_symbols: "string list")
    (right_symbols: "string list option")

subsection \<open>The symbol expander\<close>

text \<open>
  \<open>sort_out\<close> is a generator that every caller consumes whole with \<open>tuple\<close>, so the
  model returns the symbols it yields, or the exception that ends it. In the multiplier
  branch \<open>next(iterator)\<close> is evaluated before \<open>int(sym)\<close>, and the handler catches
  \<open>ValueError\<close> only: the \<open>StopIteration\<close> of an exhausted iterator leaves the
  generator and reaches the caller as \<open>RuntimeError\<close>. The \<open>ValueError\<close> it does catch
  is that of \<open>int\<close> on a multiplier of too many digits.
\<close>

fun sort_out_loop :: "nat \<Rightarrow> string list \<Rightarrow> error + string list" where
  "sort_out_loop lineno [] = Inr []"
| "sort_out_loop lineno (symb # rest) =
     (if isdecimal symb then
        (case rest of
           [] \<Rightarrow> Inl RuntimeError
         | symbol_to_mutiple # rest' \<Rightarrow>
             (case py_int symb of
                None \<Rightarrow> Inl (formatted lineno ''Invalid multiplier'')
              | Some n \<Rightarrow>
                  (case sort_out_loop lineno rest' of
                     Inl e \<Rightarrow> Inl e
                   | Inr out \<Rightarrow> Inr (replicate n symbol_to_mutiple @ out))))
      else if isalpha symb then
        (case sort_out_loop lineno rest of
           Inl e \<Rightarrow> Inl e
         | Inr out \<Rightarrow> Inr (symb # out))
      else if symb = ''+'' \<or> symb = ''->'' \<or> symb = ''<=>'' \<or> symb = ''<-'' then
        sort_out_loop lineno rest
      else Inl (formatted lineno (''Invalid identifier symbol '' @ [CHR 0x27] @ symb @ [CHR 0x27])))"

definition sort_out :: "nat \<Rightarrow> string list option \<Rightarrow> error + string list" where
  "sort_out lineno symbols =
     (case symbols of None \<Rightarrow> Inr [] | Some xs \<Rightarrow> sort_out_loop lineno xs)"

subsection \<open>Rendering a reaction\<close>

text \<open>
  \<open>stringify_reaction\<close> writes into a buffer and returns its content; for a kind that
  is no reaction nothing is written. Joining \<open>right_symbols\<close> when it is \<open>None\<close> is a
  \<open>TypeError\<close>.
\<close>

definition stringify_reaction :: "Identifier \<Rightarrow> error + string" where
  "stringify_reaction self =
     (if itype self = PARAM_DOUBLE then
        (case right_symbols self of
           None \<Rightarrow> Inl TypeError
         | Some rs \<Rightarrow> Inr (join '' + '' (left_symbols self) @ '' <=> '' @ join '' + '' rs))
      else if itype self = PARAM_SINGLE_R then
        (case right_symbols self of
           None \<Rightarrow> Inl TypeError
         | Some rs \<Rightarrow> Inr (join '' + '' (left_symbols self) @ '' -> '' @ join '' + '' rs))
      else if itype self = PARAM_SINGLE_L then
        (case right_symbols self of
           None \<Rightarrow> Inl TypeError
         | Some rs \<Rightarrow> Inr (join '' + '' rs @ '' -> '' @ join '' + '' (left_symbols self)))
      else Inr [])"

subsection \<open>Parsing a statement name\<close>

text \<open>
  The operator a reaction kind is split on. The source has one \<open>if\<close> per reaction
  kind; the other three kinds have returned before.
\<close>

definition operator_of :: "IdentifierType \<Rightarrow> string" where
  "operator_of identifier_type =
     (if identifier_type = PARAM_DOUBLE then ''<=>''
      else if identifier_type = PARAM_SINGLE_R then ''->''
      else ''<-'')"

definition parse_identifier :: "IdentifierType \<Rightarrow> nat \<Rightarrow> string \<Rightarrow> error + Identifier" where
  "parse_identifier identifier_type lineno raw =
     (if identifier_type = DRAIN_OUT \<or> identifier_type = DRAIN_IN then
        (case sort_out lineno (Some (split_ws raw)) of
           Inl e \<Rightarrow> Inl e
         | Inr symbols \<Rightarrow>
             if length symbols \<noteq> 1
             then Inl (formatted lineno
                    ''Drain parameter statements does not support multipliers'')
             else Inr (Identifier identifier_type symbols None))
      else if identifier_type = INITIAL_COND then
        (case sort_out lineno (Some (split_ws raw)) of
           Inl e \<Rightarrow> Inl e
         | Inr symbols \<Rightarrow>
             if length symbols = 0
             then Inl (formatted lineno ''No symbols supplied'')
             else Inr (Identifier identifier_type symbols None))
      else
        (case partition_str raw (operator_of identifier_type) of
           (left_raw, _, right_raw) \<Rightarrow>
             (let left_symbols = split_ws left_raw;
                  right_symbols = split_ws right_raw
              in if length left_symbols = length right_symbols \<and> length left_symbols = 0
                 then Inl (formatted lineno ''Empty symbol declaration'')
                 else (case sort_out lineno (Some left_symbols) of
                         Inl e \<Rightarrow> Inl e
                       | Inr ls \<Rightarrow>
                           (case sort_out lineno (Some right_symbols) of
                              Inl e \<Rightarrow> Inl e
                            | Inr rs \<Rightarrow> Inr (Identifier identifier_type ls (Some rs)))))))"

definition get_identifier_type :: "string \<Rightarrow> IdentifierType" where
  "get_identifier_type name =
     (if startswith name ''->'' then DRAIN_IN
      else if startswith name ''<-'' then DRAIN_OUT
      else if contains name ''<=>'' then PARAM_DOUBLE
      else if contains name ''->'' then PARAM_SINGLE_R
      else if contains name ''<-'' then PARAM_SINGLE_L
      else INITIAL_COND)"

definition parse_name :: "string \<Rightarrow> nat \<Rightarrow> error + Identifier" where
  "parse_name name line_number =
     parse_identifier (get_identifier_type name) line_number name"

section \<open>Lines and values\<close>

text \<open>
  \<open>cooked_lines\<close> takes the lines of the file in order. \<open>enumerate\<close> is called with
  its default start, so the first line has number 0.
\<close>

definition cooked_lines :: "string list \<Rightarrow> (nat \<times> string) list" where
  "cooked_lines file_descriptor =
     filter (\<lambda>(i, l). length l > 0 \<and> \<not> startswith l ''#'')
       (map (\<lambda>(lineno, raw). (lineno, strip raw)) (List.enumerate 0 file_descriptor))"

text \<open>
  The library functions the value parser calls are parameters: whether \<open>float(s)\<close> and
  \<open>int(s)\<close> succeed, and what \<open>ast.literal_eval(s)\<close> returns or raises. A value of
  type \<open>'v\<close> is the Python object a literal evaluates to.
\<close>

record 'v pylib =
  float_ok :: "string \<Rightarrow> bool"
  int_ok :: "string \<Rightarrow> bool"
  literal_eval :: "string \<Rightarrow> lib_error + 'v"

definition is_numeric :: "('v, 'z) pylib_scheme \<Rightarrow> string \<Rightarrow> bool" where
  "is_numeric lib number =
     (if float_ok lib number then True
      else if int_ok lib number then True
      else False)"

text \<open>\<open>s.split('','')\<close>: the pieces between the commas, empty pieces kept.\<close>

primrec split_comma_aux :: "string \<Rightarrow> string \<Rightarrow> string list" where
  "split_comma_aux cur [] = [cur]"
| "split_comma_aux cur (c # cs) =
     (if c = CHR '','' then cur # split_comma_aux [] cs
      else split_comma_aux (cur @ [c]) cs)"

definition split_comma :: "string \<Rightarrow> string list" where
  "split_comma s = split_comma_aux [] s"

fun parse_plural_value ::
  "('v, 'z) pylib_scheme \<Rightarrow> nat \<Rightarrow> string list \<Rightarrow> error + 'v list" where
  "parse_plural_value lib line_number [] = Inr []"
| "parse_plural_value lib line_number (raw # values) =
     (let v = strip raw
      in if \<not> is_numeric lib v
         then Inl (formatted line_number ''Non-numeric value is not allowed'')
         else (case literal_eval lib v of
                 Inl e \<Rightarrow> Inl (Uncaught e)
               | Inr x \<Rightarrow>
                   (case parse_plural_value lib line_number values of
                      Inl e \<Rightarrow> Inl e
                    | Inr xs \<Rightarrow> Inr (x # xs))))"

definition parse_value :: "('v, 'z) pylib_scheme \<Rightarrow> string \<Rightarrow> nat \<Rightarrow> error + 'v list" where
  "parse_value lib val line_number =
     (if contains val '',''
      then parse_plural_value lib line_number (split_comma val)
      else (case literal_eval lib (strip val) of
              Inl e \<Rightarrow> Inl (Uncaught e)
            | Inr x \<Rightarrow> Inr [x]))"

section \<open>The aggregator\<close>

text \<open>
  An entry of \<open>params\<close> is one value, or the whole tuple of a two-way reaction that has
  two. The dictionaries are maps; \<open>drain\<close> nests them as the source does.
\<close>

datatype 'v param = Scalar 'v | Values "'v list"

record 'v ParsedDictResults =
  initial :: "string \<rightharpoonup> 'v"
  params :: "string \<rightharpoonup> 'v param"
  drain :: "string \<rightharpoonup> (string \<rightharpoonup> (string \<rightharpoonup> 'v))"

definition empty_results :: "'v ParsedDictResults" where
  "empty_results = \<lparr>initial = Map.empty, params = Map.empty, drain = Map.empty\<rparr>"

text \<open>\<open>xs[0]\<close>, which raises \<open>IndexError\<close> on an empty tuple.\<close>

fun first :: "'a list \<Rightarrow> error + 'a" where
  "first (x # rest) = Inr x"
| "first [] = Inl IndexError"

text \<open>
  The assignments \<open>d[k][''out''] = x\<close> under \<open>try\<close>, with \<open>d[k] = {''out'': x}\<close> in the
  handler of \<open>KeyError\<close>.
\<close>

definition set_sub ::
  "(string \<rightharpoonup> (string \<rightharpoonup> 'a)) \<Rightarrow> string \<Rightarrow> string \<Rightarrow> 'a \<Rightarrow> (string \<rightharpoonup> (string \<rightharpoonup> 'a))" where
  "set_sub d k field x =
     (case d k of
        None \<Rightarrow> d(k \<mapsto> [field \<mapsto> x])
      | Some entry \<Rightarrow> d(k \<mapsto> entry(field \<mapsto> x)))"

text \<open>
  One turn of the loop of \<open>get_dicts\<close>. In an assignment Python evaluates the right
  side first, then the subscript of the target.
\<close>

definition get_dicts_step ::
  "'v ParsedDictResults \<Rightarrow> nat \<times> Identifier \<times> 'v list \<Rightarrow> error + 'v ParsedDictResults" where
  "get_dicts_step result stmt =
     (case stmt of (line_number, identifier, val) \<Rightarrow>
        if itype identifier = INITIAL_COND then
          (if length val > 1
           then Inl (formatted line_number ''Initial condition declaration expects 1 value'')
           else (case first val of
                   Inl e \<Rightarrow> Inl e
                 | Inr v0 \<Rightarrow>
                     (case first (left_symbols identifier) of
                        Inl e \<Rightarrow> Inl e
                      | Inr s \<Rightarrow> Inr (result\<lparr>initial := (initial result)(s \<mapsto> v0)\<rparr>))))
        else if itype identifier = PARAM_DOUBLE then
          (if length val = 1 then
             (case first val of
                Inl e \<Rightarrow> Inl e
              | Inr v0 \<Rightarrow>
                  (case stringify_reaction identifier of
                     Inl e \<Rightarrow> Inl e
                   | Inr key \<Rightarrow> Inr (result\<lparr>params := (params result)(key \<mapsto> Scalar v0)\<rparr>)))
           else if length val = 2 then
             (case stringify_reaction identifier of
                Inl e \<Rightarrow> Inl e
              | Inr key \<Rightarrow> Inr (result\<lparr>params := (params result)(key \<mapsto> Values val)\<rparr>))
           else Inl (formatted line_number ''Too many values declared for two-way reaction''))
        else if itype identifier = PARAM_SINGLE_L \<or> itype identifier = PARAM_SINGLE_R then
          (if length val \<noteq> 1
           then Inl (formatted line_number ''Too many values declared for one-way reaction'')
           else (case first val of
                   Inl e \<Rightarrow> Inl e
                 | Inr v0 \<Rightarrow>
                     (case stringify_reaction identifier of
                        Inl e \<Rightarrow> Inl e
                      | Inr key \<Rightarrow> Inr (result\<lparr>params := (params result)(key \<mapsto> Scalar v0)\<rparr>))))
        else if itype identifier = DRAIN_OUT then
          (if length val \<noteq> 1
           then Inl (formatted line_number ''Too many values declared for drain parameter'')
           else (case first val of
                   Inl e \<Rightarrow> Inl e
                 | Inr v0 \<Rightarrow>
                     (case first (left_symbols identifier) of
                        Inl e \<Rightarrow> Inl e
                      | Inr s \<Rightarrow>
                          Inr (result\<lparr>drain :=
                                 set_sub (drain result) s ''out'' [''factor'' \<mapsto> v0]\<rparr>))))
        else if itype identifier = DRAIN_IN then
          (if length val \<noteq> 1
           then Inl (formatted line_number ''Too many values declared for drain parameter'')
           else (case first val of
                   Inl e \<Rightarrow> Inl e
                 | Inr v0 \<Rightarrow>
                     (case first (left_symbols identifier) of
                        Inl e \<Rightarrow> Inl e
                      | Inr s \<Rightarrow>
                          Inr (result\<lparr>drain :=
                                 set_sub (drain result) s ''in'' [''constant'' \<mapsto> v0]\<rparr>))))
        else Inr result)"

fun get_dicts_from ::
  "'v ParsedDictResults \<Rightarrow> (nat \<times> Identifier \<times> 'v list) list \<Rightarrow> error + 'v ParsedDictResults" where
  "get_dicts_from result [] = Inr result"
| "get_dicts_from result (stmt # parsed) =
     (case get_dicts_step result stmt of
        Inl e \<Rightarrow> Inl e
      | Inr result' \<Rightarrow> get_dicts_from result' parsed)"

definition get_dicts :: "(nat \<times> Identifier \<times> 'v list) list \<Rightarrow> error + 'v ParsedDictResults" where
  "get_dicts parsed = get_dicts_from empty_results parsed"

section \<open>The expander as the spec describes it\<close>

text \<open>
  The spec's reading of an expression, for comparison with \<open>sort_out\<close>: an
  expression is a sequence of items, each a multiplier with the symbol it repeats, a
  bare symbol, or an operator token. An item is written as one or two tokens and stands
  for the symbols the spec says it yields. A multiplier is valid when it can be
  interpreted as an integer: decimal digits, no more of them than \<open>int\<close> converts.
\<close>

datatype spec_item = Multiplied string string | Bare string | Operator string

fun spec_item_ok :: "spec_item \<Rightarrow> bool" where
  "spec_item_ok (Multiplied digits symbol) =
     (isdecimal digits \<and> length digits \<le> max_str_digits \<and> isalpha symbol)"
| "spec_item_ok (Bare symbol) = isalpha symbol"
| "spec_item_ok (Operator t) = (t = ''+'' \<or> t = ''->'' \<or> t = ''<=>'' \<or> t = ''<-'')"

fun spec_tokens :: "spec_item \<Rightarrow> string list" where
  "spec_tokens (Multiplied digits symbol) = [digits, symbol]"
| "spec_tokens (Bare symbol) = [symbol]"
| "spec_tokens (Operator t) = [t]"

text \<open>The number a string of decimal digits denotes, most significant digit first.\<close>

primrec spec_number :: "string \<Rightarrow> nat" where
  "spec_number [] = 0"
| "spec_number (d # ds) = digit_val d * 10 ^ length ds + spec_number ds"

fun spec_expand :: "spec_item \<Rightarrow> string list" where
  "spec_expand (Multiplied digits symbol) = replicate (spec_number digits) symbol"
| "spec_expand (Bare symbol) = [symbol]"
| "spec_expand (Operator t) = []"

section \<open>Reaction identifiers in forward form\<close>

text \<open>
  A reverse-alias reaction read as the forward reaction it stands for: the kind becomes
  \<open>PARAM_SINGLE_R\<close> and the sides change places. Other identifiers are left as they are.
\<close>

definition forward_form :: "Identifier \<Rightarrow> Identifier" where
  "forward_form i =
     (case right_symbols i of
        None \<Rightarrow> i
      | Some rs \<Rightarrow>
          if itype i = PARAM_SINGLE_L then Identifier PARAM_SINGLE_R rs (Some (left_symbols i))
          else i)"

text \<open>The tokens of a rendered side: its symbols with a \<open>+\<close> between neighbours.\<close>

fun plus_between :: "string list \<Rightarrow> string list" where
  "plus_between [] = []"
| "plus_between [x] = [x]"
| "plus_between (x # y # ys) = x # ''+'' # plus_between (y # ys)"

section \<open>Facts about the string primitives\<close>

lemmas char_class_defs =
  isspace_char_def isalpha_char_def isdecimal_char_def isalpha_def isdecimal_def

lemma alpha_char_not_decimal: "isalpha_char c \<Longrightarrow> \<not> isdecimal_char c"
  by (auto simp: isalpha_char_def isdecimal_char_def Let_def)

lemma isalpha_not_isdecimal: "isalpha s \<Longrightarrow> \<not> isdecimal s"
  by (cases s) (auto simp: isalpha_def isdecimal_def dest: alpha_char_not_decimal)

lemma py_int_None: "isdecimal s \<Longrightarrow> py_int s = None \<longleftrightarrow> max_str_digits < length s"
  by (auto simp: py_int_def)

lemma isdecimal_0: "isdecimal ''0''"
  by (simp add: isdecimal_def isdecimal_char_def)

lemma py_int_0: "py_int ''0'' = Some 0"
  by (simp add: py_int_def isdecimal_0 digit_val_def max_str_digits_def)

lemma operator_not_decimal:
  "\<not> isdecimal ''+''" "\<not> isdecimal ''->''" "\<not> isdecimal ''<=>''" "\<not> isdecimal ''<-''"
  by (simp_all add: isdecimal_def isdecimal_char_def)

lemma operator_not_alpha:
  "\<not> isalpha ''+''" "\<not> isalpha ''->''" "\<not> isalpha ''<=>''" "\<not> isalpha ''<-''"
  by (simp_all add: isalpha_def isalpha_char_def)

lemma alpha_char_not_space: "isalpha_char c \<Longrightarrow> \<not> isspace_char c"
  by (auto simp: isalpha_char_def isspace_char_def Let_def)

lemma split_aux_token:
  "\<forall>c \<in> set t. \<not> isspace_char c \<Longrightarrow> split_aux cur (t @ rest) = split_aux (cur @ t) rest"
  by (induction t arbitrary: cur) simp_all

lemma split_aux_symbol:
  assumes "isalpha X"
  shows "split_aux [] X = [X]"
proof -
  from assms have ns: "\<forall>c \<in> set X. \<not> isspace_char c" and ne: "X \<noteq> []"
    by (auto simp: isalpha_def list_all_iff dest: alpha_char_not_space)
  from split_aux_token[OF ns, of "[]" "[]"] ne show ?thesis by simp
qed


section \<open>The symbol expander\<close>

text \<open>
  C3. A token sequence that ends in a multiplier: the spec promises the parse error
  "Invalid multiplier". On the tokens of \<open>A 2\<close> the expander ends with
  \<open>RuntimeError\<close> instead: \<open>next\<close> raises \<open>StopIteration\<close>, which the handler for
  \<open>ValueError\<close> does not catch.
\<close>

theorem sort_out_trailing_multiplier:
  "sort_out 7 (Some [''A'', ''2'']) = Inl RuntimeError"
  by (simp add: sort_out_def isdecimal_def isdecimal_char_def isalpha_def isalpha_char_def)

text \<open>
  C10. A multiplier of zero is accepted: the token pair \<open>0 s\<close> expands to no symbol,
  whatever the token \<open>s\<close> is, and so does any sequence of such pairs.
\<close>

theorem sort_out_zero_multiplier:
  "sort_out lineno (Some [''0'', s]) = Inr []
   \<and> sort_out lineno (Some (concat (map (\<lambda>s. [''0'', s]) ss))) = Inr []"
proof -
  have "sort_out_loop lineno (concat (map (\<lambda>s. [''0'', s]) ss)) = Inr []"
    by (induction ss) (simp_all add: isdecimal_0 py_int_0)
  then show ?thesis by (simp add: sort_out_def isdecimal_0 py_int_0)
qed

text \<open>
  A multiplier of more digits than \<open>int\<close> converts, with a token after it, ends the
  expander with the parse error of the handler.
\<close>

lemma sort_out_long_multiplier:
  "isdecimal d \<Longrightarrow> max_str_digits < length d \<Longrightarrow>
     sort_out lineno (Some (d # s # rest)) = Inl (formatted lineno ''Invalid multiplier'')"
  by (simp add: sort_out_def py_int_def)

text \<open>
  The only errors of the expander: the \<open>RuntimeError\<close> of a trailing multiplier, the
  parse error for a multiplier that \<open>int\<close> refuses, and the parse error for a token
  that is no number, no word and no operator.
\<close>

lemma sort_out_loop_errors:
  "sort_out_loop lineno toks = Inl e \<Longrightarrow>
     e = RuntimeError \<or> e = formatted lineno ''Invalid multiplier'' \<or>
     (\<exists>s. e = formatted lineno (''Invalid identifier symbol '' @ [CHR 0x27] @ s @ [CHR 0x27]))"
proof (induction lineno toks rule: sort_out_loop.induct)
  case (1 lineno)
  then show ?case by simp
next
  case (2 lineno symb rest)
  show ?case
  proof (cases "isdecimal symb")
    case True
    show ?thesis
    proof (cases rest)
      case Nil
      with True 2(4) show ?thesis by simp
    next
      case (Cons s rest')
      show ?thesis
      proof (cases "py_int symb")
        case None
        with True Cons 2(4) show ?thesis by auto
      next
        case (Some n)
        with True Cons 2(4) have "sort_out_loop lineno rest' = Inl e"
          by (simp split: sum.splits)
        with 2(1)[OF True Cons Some] show ?thesis .
      qed
    qed
  next
    case False
    note nd = False
    show ?thesis
    proof (cases "isalpha symb")
      case True
      with nd 2(4) have "sort_out_loop lineno rest = Inl e" by (simp split: sum.splits)
      with 2(2)[OF nd True] show ?thesis .
    next
      case False
      show ?thesis
      proof (cases "symb = ''+'' \<or> symb = ''->'' \<or> symb = ''<=>'' \<or> symb = ''<-''")
        case True
        with nd False 2(4) have "sort_out_loop lineno rest = Inl e" by simp
        with 2(3)[OF nd False True] show ?thesis .
      next
        case op: False
        with nd False 2(4) show ?thesis by auto
      qed
    qed
  qed
qed

lemma sort_out_not_empty_declaration:
  "sort_out lineno (Some toks) \<noteq> Inl (formatted lineno ''Empty symbol declaration'')"
proof
  assume "sort_out lineno (Some toks) = Inl (formatted lineno ''Empty symbol declaration'')"
  then have "sort_out_loop lineno toks = Inl (formatted lineno ''Empty symbol declaration'')"
    by (simp add: sort_out_def)
  from sort_out_loop_errors[OF this] show False by (auto simp: formatted_def)
qed

section \<open>The identifier parser\<close>

text \<open>
  The guard of the reaction branch tests the two lists of tokens, before they are
  expanded: the parse error "Empty symbol declaration" is the result exactly when
  neither half of the name, cut at the first occurrence of the operator, has a token.
\<close>

lemma parse_identifier_empty_guard:
  assumes "identifier_type \<in> {PARAM_DOUBLE, PARAM_SINGLE_R, PARAM_SINGLE_L}"
    and "partition_str raw (operator_of identifier_type) = (left_raw, sep, right_raw)"
  shows "parse_identifier identifier_type lineno raw
            = Inl (formatted lineno ''Empty symbol declaration'')
          \<longleftrightarrow> split_ws left_raw = [] \<and> split_ws right_raw = []"
proof -
  have kind: "identifier_type \<noteq> DRAIN_OUT" "identifier_type \<noteq> DRAIN_IN"
    "identifier_type \<noteq> INITIAL_COND"
    using assms(1) by auto
  show ?thesis
  proof (cases "split_ws left_raw = [] \<and> split_ws right_raw = []")
    case True
    with kind assms(2) show ?thesis by (simp add: parse_identifier_def)
  next
    case False
    have eq: "parse_identifier identifier_type lineno raw
        = (case sort_out lineno (Some (split_ws left_raw)) of
             Inl e \<Rightarrow> Inl e
           | Inr ls \<Rightarrow>
               (case sort_out lineno (Some (split_ws right_raw)) of
                  Inl e \<Rightarrow> Inl e
                | Inr rs \<Rightarrow> Inr (Identifier identifier_type ls (Some rs))))"
      using False kind assms(2) by (auto simp: parse_identifier_def Let_def)
    have "parse_identifier identifier_type lineno raw
        \<noteq> Inl (formatted lineno ''Empty symbol declaration'')"
      unfolding eq
      using sort_out_not_empty_declaration[of lineno "split_ws left_raw"]
        sort_out_not_empty_declaration[of lineno "split_ws right_raw"]
      by (auto split: sum.splits)
    with False show ?thesis by simp
  qed
qed

text \<open>
  The branches for an initial condition and for a drain test the symbols after the
  expansion: a name that expands to no symbol is refused there.
\<close>

lemma sibling_branches_refuse_empty_expansion:
  "parse_name ''0 A'' 4 = Inl (formatted 4 ''No symbols supplied'')
   \<and> parse_name ''<- 0 A'' 4
       = Inl (formatted 4 ''Drain parameter statements does not support multipliers'')"
  by (simp add: parse_name_def get_identifier_type_def parse_identifier_def split_ws_def
      sort_out_def char_class_defs py_int_def digit_val_def max_str_digits_def)

text \<open>
  C4. The spec has a reaction name refused with the error of an empty reaction side
  when both sides are empty after the expansion. The source tests the sides before it
  expands them: in \<open>0 A -> 0 B\<close> each side expands to no symbol, yet the name is
  accepted, as a forward reaction without symbols.
\<close>

theorem parse_identifier_zero_sides_accepted:
  "sort_out 4 (Some (split_ws ''0 A '')) = Inr []
   \<and> sort_out 4 (Some (split_ws '' 0 B'')) = Inr []
   \<and> partition_str ''0 A -> 0 B'' ''->'' = (''0 A '', ''->'', '' 0 B'')
   \<and> parse_identifier PARAM_SINGLE_R 4 ''0 A -> 0 B'' = Inr (Identifier PARAM_SINGLE_R [] (Some []))"
  by (simp add: parse_identifier_def operator_of_def partition_str_def split_ws_def sort_out_def
      char_class_defs py_int_def digit_val_def max_str_digits_def)

lemma parse_name_reverse_alias: "parse_name ''A <- B'' m = Inr (Identifier PARAM_SINGLE_L [''A''] (Some [''B'']))"
  by (simp add: parse_name_def get_identifier_type_def parse_identifier_def operator_of_def
      partition_str_def split_ws_def sort_out_def char_class_defs)

lemma parse_name_forward: "parse_name ''B -> A'' n = Inr (Identifier PARAM_SINGLE_R [''B''] (Some [''A'']))"
  by (simp add: parse_name_def get_identifier_type_def parse_identifier_def operator_of_def
      partition_str_def split_ws_def sort_out_def char_class_defs)

text \<open>
  C5. The names \<open>A <- B\<close> and \<open>B -> A\<close> are parsed to identifiers that render to the
  same string \<open>B -> A\<close>, so the second of two such statements replaces the entry of the
  first in \<open>params\<close>.
\<close>

theorem reverse_alias_same_key: "parse_name ''A <- B'' m = Inr (Identifier PARAM_SINGLE_L [''A''] (Some [''B'']))
  \<and> parse_name ''B -> A'' n = Inr (Identifier PARAM_SINGLE_R [''B''] (Some [''A'']))
  \<and> stringify_reaction (Identifier PARAM_SINGLE_L [''A''] (Some [''B''])) = Inr ''B -> A''
  \<and> stringify_reaction (Identifier PARAM_SINGLE_R [''B''] (Some [''A''])) = Inr ''B -> A''
  \<and> get_dicts [(m, Identifier PARAM_SINGLE_L [''A''] (Some [''B'']), [v]),
                (n, Identifier PARAM_SINGLE_R [''B''] (Some [''A'']), [w])]
      = Inr \<lparr>initial = Map.empty, params = [''B -> A'' \<mapsto> Scalar w], drain = Map.empty\<rparr>"
  by (simp add: parse_name_reverse_alias parse_name_forward stringify_reaction_def get_dicts_def get_dicts_step_def empty_results_def)

section \<open>Lines and values\<close>

text \<open>
  C1. The spec numbers the lines from 1. The source numbers them from 0: a file of one
  statement gives it the number 0, and a statement on the third line, after a comment
  and a blank line, has the number 2.
\<close>

theorem cooked_lines_zero_based: "cooked_lines [''# rates'' @ [CHR 0x0A], [CHR 0x0A], ''X : 1.0'' @ [CHR 0x0A]] = [(2, ''X : 1.0'')]
  \<and> cooked_lines [''X : 1.0'' @ [CHR 0x0A]] = [(0, ''X : 1.0'')]"
  by (simp add: cooked_lines_def strip_def isspace_char_def enumerate_eq_zip upt_rec)

text \<open>
  C2. Without a comma the value goes to \<open>ast.literal_eval\<close> unchecked, and what that
  raises is not caught: for the value \<open>abc\<close> the result is no parse error, whatever the
  library does, and it is the \<open>ValueError\<close> of the library when that is what
  \<open>literal_eval\<close> raises.
\<close>

theorem parse_value_single_unchecked:
  "parse_value lib ''abc'' 3 \<noteq> Inl (formatted 3 message)
   \<and> parse_value (lib\<lparr>literal_eval := \<lambda>s. Inl ValueError\<rparr>) ''abc'' 3 = Inl (Uncaught ValueError)"
  by (simp add: parse_value_def formatted_def split: sum.splits)

section \<open>The aggregator\<close>

lemma parse_drain_out:
  assumes "isalpha X"
  shows "parse_name (''<- '' @ X) m = Inr (Identifier DRAIN_OUT [X] None)"
proof -
  have t: "get_identifier_type (''<- '' @ X) = DRAIN_OUT"
    by (simp add: get_identifier_type_def)
  have s: "split_ws (''<- '' @ X) = [''<-'', X]"
    using split_aux_symbol[OF assms] by (simp add: split_ws_def isspace_char_def)
  have "sort_out m (Some [''<-'', X]) = Inr [X]"
    using assms isalpha_not_isdecimal[OF assms]
    by (simp add: sort_out_def operator_not_decimal operator_not_alpha)
  with t s show ?thesis by (simp add: parse_name_def parse_identifier_def)
qed

lemma parse_drain_in:
  assumes "isalpha X"
  shows "parse_name (''-> '' @ X) m = Inr (Identifier DRAIN_IN [X] None)"
proof -
  have t: "get_identifier_type (''-> '' @ X) = DRAIN_IN"
    by (simp add: get_identifier_type_def)
  have s: "split_ws (''-> '' @ X) = [''->'', X]"
    using split_aux_symbol[OF assms] by (simp add: split_ws_def isspace_char_def)
  have "sort_out m (Some [''->'', X]) = Inr [X]"
    using assms isalpha_not_isdecimal[OF assms]
    by (simp add: sort_out_def operator_not_decimal operator_not_alpha)
  with t s show ?thesis by (simp add: parse_name_def parse_identifier_def)
qed

text \<open>
  C6. For a species symbol \<open>X\<close>, the names \<open><- X\<close> and \<open>-> X\<close> are an outflow and an
  inflow of \<open>X\<close>; aggregating the two statements, with the values \<open>a\<close> and \<open>b\<close>, gives
  \<open>drain[X] = {out: {factor: a}, in: {constant: b}}\<close>, in either order.
\<close>

theorem drain_merge:
  assumes "isalpha X"
  shows "parse_name (''<- '' @ X) m = Inr (Identifier DRAIN_OUT [X] None)
    \<and> parse_name (''-> '' @ X) n = Inr (Identifier DRAIN_IN [X] None)
    \<and> get_dicts [(m, Identifier DRAIN_OUT [X] None, [a]), (n, Identifier DRAIN_IN [X] None, [b])]
        = Inr \<lparr>initial = Map.empty, params = Map.empty,
               drain = [X \<mapsto> [''out'' \<mapsto> [''factor'' \<mapsto> a], ''in'' \<mapsto> [''constant'' \<mapsto> b]]]\<rparr>
    \<and> get_dicts [(n, Identifier DRAIN_IN [X] None, [b]), (m, Identifier DRAIN_OUT [X] None, [a])]
        = get_dicts [(m, Identifier DRAIN_OUT [X] None, [a]), (n, Identifier DRAIN_IN [X] None, [b])]"
proof -
  have tw: "[''in'' \<mapsto> [''constant'' \<mapsto> b], ''out'' \<mapsto> [''factor'' \<mapsto> a]]
      = [''out'' \<mapsto> [''factor'' \<mapsto> a], ''in'' \<mapsto> [''constant'' \<mapsto> b]]"
    by (rule fun_upd_twist) simp
  show ?thesis
    using parse_drain_out[OF assms] parse_drain_in[OF assms]
    by (simp add: get_dicts_def get_dicts_step_def empty_results_def set_sub_def tw)
qed

theorem drain_merge_witness:
  "isalpha ''X'' \<and> get_dicts [(3, Identifier DRAIN_OUT [''X''] None, [5::int]), (4, Identifier DRAIN_IN [''X''] None, [10])]
        = Inr \<lparr>initial = Map.empty, params = Map.empty,
               drain = [''X'' \<mapsto> [''out'' \<mapsto> [''factor'' \<mapsto> 5], ''in'' \<mapsto> [''constant'' \<mapsto> 10]]]\<rparr>"
proof -
  have h: "isalpha ''X''" by (simp add: isalpha_def isalpha_char_def)
  from drain_merge[OF h, where m = 3 and n = 4 and a = "5::int" and b = 10] h show ?thesis by simp
qed

text \<open>
  C9. A step of the aggregator that succeeds changes one mapping only: \<open>initial\<close> for
  an initial condition, \<open>params\<close> for a reaction, \<open>drain\<close> for a drain.
\<close>

theorem get_dicts_step_frame:
  assumes "get_dicts_step result (line_number, identifier, val) = Inr result'"
  shows "(itype identifier = INITIAL_COND \<longrightarrow>
            params result' = params result \<and> drain result' = drain result)
       \<and> (itype identifier \<in> {PARAM_DOUBLE, PARAM_SINGLE_R, PARAM_SINGLE_L} \<longrightarrow>
            initial result' = initial result \<and> drain result' = drain result)
       \<and> (itype identifier \<in> {DRAIN_OUT, DRAIN_IN} \<longrightarrow>
            initial result' = initial result \<and> params result' = params result)"
  using assms
  by (cases "itype identifier") (auto simp: get_dicts_step_def split: if_splits sum.splits)

theorem get_dicts_step_frame_witness:
  "get_dicts_step (empty_results :: int ParsedDictResults)
       (1, Identifier INITIAL_COND [''X''] None, [2])
     = Inr (empty_results\<lparr>initial := [''X'' \<mapsto> 2]\<rparr>)
   \<and> params (empty_results\<lparr>initial := [''X'' \<mapsto> 2::int]\<rparr>) = params empty_results
   \<and> drain (empty_results\<lparr>initial := [''X'' \<mapsto> 2::int]\<rparr>) = drain empty_results
   \<and> get_dicts_step (empty_results :: int ParsedDictResults)
       (2, Identifier PARAM_SINGLE_R [''X''] (Some [''Y'']), [3])
     = Inr (empty_results\<lparr>params := [''X -> Y'' \<mapsto> Scalar 3]\<rparr>)
   \<and> initial (empty_results\<lparr>params := [''X -> Y'' \<mapsto> Scalar (3::int)]\<rparr>) = initial empty_results
   \<and> drain (empty_results\<lparr>params := [''X -> Y'' \<mapsto> Scalar (3::int)]\<rparr>) = drain empty_results
   \<and> get_dicts_step (empty_results :: int ParsedDictResults)
       (3, Identifier DRAIN_OUT [''X''] None, [4])
     = Inr (empty_results\<lparr>drain := [''X'' \<mapsto> [''out'' \<mapsto> [''factor'' \<mapsto> 4]]]\<rparr>)
   \<and> initial (empty_results\<lparr>drain := [''X'' \<mapsto> [''out'' \<mapsto> [''factor'' \<mapsto> 4::int]]]\<rparr>)
       = initial empty_results
   \<and> params (empty_results\<lparr>drain := [''X'' \<mapsto> [''out'' \<mapsto> [''factor'' \<mapsto> 4::int]]]\<rparr>)
       = params empty_results"
proof -
  have a: "get_dicts_step (empty_results :: int ParsedDictResults)
       (1, Identifier INITIAL_COND [''X''] None, [2])
     = Inr (empty_results\<lparr>initial := [''X'' \<mapsto> 2]\<rparr>)"
    by (simp add: get_dicts_step_def empty_results_def)
  have b: "get_dicts_step (empty_results :: int ParsedDictResults)
       (2, Identifier PARAM_SINGLE_R [''X''] (Some [''Y'']), [3])
     = Inr (empty_results\<lparr>params := [''X -> Y'' \<mapsto> Scalar 3]\<rparr>)"
    by (simp add: get_dicts_step_def empty_results_def stringify_reaction_def)
  have c: "get_dicts_step (empty_results :: int ParsedDictResults)
       (3, Identifier DRAIN_OUT [''X''] None, [4])
     = Inr (empty_results\<lparr>drain := [''X'' \<mapsto> [''out'' \<mapsto> [''factor'' \<mapsto> 4]]]\<rparr>)"
    by (simp add: get_dicts_step_def empty_results_def set_sub_def)
  from get_dicts_step_frame[OF a] get_dicts_step_frame[OF b] get_dicts_step_frame[OF c] a b c
  show ?thesis by simp
qed

section \<open>The expander against the spec's reading\<close>

lemma foldl_digits:
  "foldl (\<lambda>acc c. 10 * acc + digit_val c) a ds = a * 10 ^ length ds + spec_number ds"
  by (induction ds arbitrary: a) (simp_all add: algebra_simps)

lemma py_int_spec_number:
  "isdecimal ds \<Longrightarrow> length ds \<le> max_str_digits \<Longrightarrow> py_int ds = Some (spec_number ds)"
  by (simp add: py_int_def foldl_digits)

lemma sort_out_loop_item:
  assumes "spec_item_ok item"
  shows "sort_out_loop lineno (spec_tokens item @ rest)
           = (case sort_out_loop lineno rest of
                Inl e \<Rightarrow> Inl e
              | Inr out \<Rightarrow> Inr (spec_expand item @ out))"
proof (cases item)
  case (Multiplied ds symbol)
  with assms have "isdecimal ds" and "length ds \<le> max_str_digits" by simp_all
  with Multiplied show ?thesis by (simp add: py_int_spec_number split: sum.splits)
next
  case (Bare symbol)
  with assms have "isalpha symbol" by simp
  with Bare isalpha_not_isdecimal[of symbol] show ?thesis by (simp split: sum.splits)
next
  case (Operator t)
  with assms have "t = ''+'' \<or> t = ''->'' \<or> t = ''<=>'' \<or> t = ''<-''" by simp
  with Operator show ?thesis
    using operator_not_decimal operator_not_alpha by (auto split: sum.splits)
qed

lemma sort_out_loop_items:
  "list_all spec_item_ok items \<Longrightarrow>
     sort_out_loop lineno (concat (map spec_tokens items)) = Inr (concat (map spec_expand items))"
  by (induction items) (simp_all add: sort_out_loop_item split: sum.splits)


text \<open>
  C8. For every valid expression, given as a sequence of items (a decimal multiplier
  that \<open>int\<close> converts with an alphabetic symbol, a bare alphabetic symbol, or an
  operator token), the
  expander run over its tokens returns the concatenation, in input order, of what each
  item stands for: the symbol repeated multiplier-many times, the symbol once, or
  nothing. The result is a function of the tokens alone. The tokens of \<open>2 A B\<close> expand
  to \<open>A, A, B\<close>.
\<close>

theorem sort_out_refines_spec:
  "(list_all spec_item_ok items \<longrightarrow>
      sort_out lineno (Some (concat (map spec_tokens items)))
        = Inr (concat (map spec_expand items)))
   \<and> sort_out lineno (Some (split_ws ''2 A B'')) = Inr [''A'', ''A'', ''B'']"
proof -
  have ok: "list_all spec_item_ok [Multiplied ''2'' ''A'', Bare ''B'']"
    by (simp add: char_class_defs max_str_digits_def)
  have "split_ws ''2 A B'' = concat (map spec_tokens [Multiplied ''2'' ''A'', Bare ''B''])"
    by (simp add: split_ws_def isspace_char_def)
  moreover have "concat (map spec_expand [Multiplied ''2'' ''A'', Bare ''B'']) = [''A'', ''A'', ''B'']"
    by (simp add: digit_val_def numeral_2_eq_2)
  ultimately have "sort_out lineno (Some (split_ws ''2 A B'')) = Inr [''A'', ''A'', ''B'']"
    using sort_out_loop_items[OF ok, of lineno] by (simp add: sort_out_def)
  then show ?thesis by (simp add: sort_out_def sort_out_loop_items)
qed


theorem sort_out_refines_spec_witness:
  "list_all spec_item_ok [Multiplied ''3'' ''A'', Operator ''+'', Bare ''B'']
   \<and> sort_out 1 (Some [''3'', ''A'', ''+'', ''B'']) = Inr [''A'', ''A'', ''A'', ''B'']"
proof -
  have ok: "list_all spec_item_ok [Multiplied ''3'' ''A'', Operator ''+'', Bare ''B'']"
    by (simp add: char_class_defs max_str_digits_def)
  have "concat (map spec_expand [Multiplied ''3'' ''A'', Operator ''+'', Bare ''B''])
      = [''A'', ''A'', ''A'', ''B'']"
    by (simp add: digit_val_def numeral_3_eq_3)
  with sort_out_refines_spec[of "[Multiplied ''3'' ''A'', Operator ''+'', Bare ''B'']" 1] ok
  show ?thesis by simp
qed

section \<open>Rendering and re-parsing\<close>

lemma startswith_append: "startswith (p @ b) p"
  by (induction p) simp_all

lemma startswith_other_head: "sep \<noteq> [] \<Longrightarrow> c \<noteq> hd sep \<Longrightarrow> \<not> startswith (c # cs) sep"
  by (cases sep) auto

lemma find_sep_first:
  assumes "sep \<noteq> []" and "\<forall>c \<in> set a. c \<noteq> hd sep"
  shows "find_sep sep (a @ sep @ b) = Some (a, b)"
  using assms(2)
proof (induction a)
  case Nil
  from assms(1) obtain p ps where sep: "sep = p # ps" by (cases sep) auto
  have "startswith (sep @ b) sep" by (rule startswith_append)
  then show ?case by (simp add: sep)
next
  case (Cons c a)
  then have "\<not> startswith (c # a @ sep @ b) sep"
    using startswith_other_head[OF assms(1)] by simp
  with Cons show ?case by simp
qed

lemma partition_str_first:
  "sep \<noteq> [] \<Longrightarrow> \<forall>c \<in> set a. c \<noteq> hd sep \<Longrightarrow> partition_str (a @ sep @ b) sep = (a, sep, b)"
  by (simp add: partition_str_def find_sep_first)

lemma join_chars:
  "list_all isalpha l \<Longrightarrow>
     \<forall>c \<in> set (join '' + '' l). isalpha_char c \<or> c = CHR '' '' \<or> c = CHR ''+''"
  by (induction "'' + ''" l rule: join.induct) (auto simp: isalpha_def list_all_iff)

lemma split_aux_space: "split_aux [] (CHR '' '' # rest) = split_aux [] rest"
  by (simp add: isspace_char_def)

lemma split_aux_word:
  assumes "isalpha x"
  shows "split_aux [] (x @ CHR '' '' # rest) = x # split_aux [] rest"
proof -
  from assms have ns: "\<forall>c \<in> set x. \<not> isspace_char c" and ne: "x \<noteq> []"
    by (auto simp: isalpha_def list_all_iff dest: alpha_char_not_space)
  from split_aux_token[OF ns, of "[]" "CHR '' '' # rest"] ne show ?thesis
    by (simp add: isspace_char_def)
qed

lemma split_aux_join:
  "list_all isalpha l \<Longrightarrow>
     split_aux [] (join '' + '' l @ CHR '' '' # rest) = plus_between l @ split_aux [] rest"
proof (induction l rule: plus_between.induct)
  case 1
  show ?case by (simp add: isspace_char_def)
next
  case (2 x)
  then show ?case by (simp add: split_aux_word)
next
  case (3 x y ys)
  then have x: "isalpha x" and rest: "list_all isalpha (y # ys)" by simp_all
  have "split_aux [] (join '' + '' (x # y # ys) @ CHR '' '' # rest)
      = split_aux [] (x @ CHR '' '' # (CHR ''+'' # CHR '' '' # (join '' + '' (y # ys) @ CHR '' '' # rest)))"
    by simp
  also have "\<dots> = x # split_aux [] (CHR ''+'' # CHR '' '' # (join '' + '' (y # ys) @ CHR '' '' # rest))"
    by (rule split_aux_word[OF x])
  also have "\<dots> = x # ''+'' # split_aux [] (join '' + '' (y # ys) @ CHR '' '' # rest)"
    by (simp add: isspace_char_def)
  also have "\<dots> = x # ''+'' # plus_between (y # ys) @ split_aux [] rest"
    using 3(1)[OF rest] by simp
  finally show ?case by simp
qed

lemma split_aux_trailing_space: "split_aux cur (s @ '' '') = split_aux cur s"
  by (induction s arbitrary: cur) (simp_all add: isspace_char_def)

lemma split_ws_left_side:
  "list_all isalpha l \<Longrightarrow> split_ws (join '' + '' l @ '' '') = plus_between l"
  using split_aux_join[of l "[]"] by (simp add: split_ws_def)

lemma split_ws_right_side:
  assumes "list_all isalpha l"
  shows "split_ws (CHR '' '' # join '' + '' l) = plus_between l"
proof -
  have "split_ws (CHR '' '' # join '' + '' l) = split_aux [] (join '' + '' l)"
    by (simp add: split_ws_def isspace_char_def)
  also have "\<dots> = split_aux [] (join '' + '' l @ '' '')"
    by (simp only: split_aux_trailing_space)
  also have "\<dots> = plus_between l"
    using split_aux_join[OF assms, of "[]"] by simp
  finally show ?thesis .
qed

lemma sort_out_plus_between:
  "list_all isalpha l \<Longrightarrow> sort_out lineno (Some (plus_between l)) = Inr l"
proof (induction l rule: plus_between.induct)
  case 1
  show ?case by (simp add: sort_out_def)
next
  case (2 x)
  then show ?case using isalpha_not_isdecimal[of x] by (simp add: sort_out_def)
next
  case (3 x y ys)
  then show ?case
    using isalpha_not_isdecimal[of x] operator_not_decimal operator_not_alpha
    by (simp add: sort_out_def)
qed

lemma plus_between_Nil: "plus_between l = [] \<longleftrightarrow> l = []"
  by (cases l rule: plus_between.cases) simp_all

lemma reparse_rendered:
  assumes l: "list_all isalpha l" and r: "list_all isalpha r" and ne: "l \<noteq> [] \<or> r \<noteq> []"
    and k: "k = PARAM_DOUBLE \<or> k = PARAM_SINGLE_R"
  shows "parse_identifier k lineno (join '' + '' l @ '' '' @ operator_of k @ '' '' @ join '' + '' r)
         = Inr (Identifier k l (Some r))"
proof -
  have op: "operator_of k \<noteq> []" "hd (operator_of k) = CHR ''<'' \<or> hd (operator_of k) = CHR ''-''"
    using k by (auto simp: operator_of_def)
  have "\<forall>c \<in> set (join '' + '' l @ '' ''). c \<noteq> hd (operator_of k)"
    using join_chars[OF l] op(2) by (auto simp: isalpha_char_def)
  from partition_str_first[OF op(1) this, of "'' '' @ join '' + '' r"]
  have p: "partition_str (join '' + '' l @ '' '' @ operator_of k @ '' '' @ join '' + '' r) (operator_of k)
         = (join '' + '' l @ '' '', operator_of k, '' '' @ join '' + '' r)"
    by simp
  have kind: "k \<noteq> DRAIN_OUT" "k \<noteq> DRAIN_IN" "k \<noteq> INITIAL_COND" using k by auto
  from ne have "\<not> (plus_between l = [] \<and> plus_between r = [])"
    by (simp add: plus_between_Nil)
  with kind show ?thesis
    unfolding parse_identifier_def p
    by (auto simp: Let_def split_ws_left_side[OF l] split_ws_right_side[OF r]
        sort_out_plus_between[OF l] sort_out_plus_between[OF r])
qed


text \<open>
  C7. A reaction identifier, as the data model has it, is of one of the three reaction
  kinds, has both sides, and its symbols are non-empty alphabetic strings; the data
  model has neither side empty, and the theorem asks only that one side has a symbol.
  Rendering such an identifier and parsing the text again, under the operator of the
  rendering, gives back the identifier in forward form: the same kind up to the reverse
  alias, and the same symbol sequences, hence the same multisets, on each side.
\<close>

theorem stringify_parse_roundtrip:
  assumes "itype i \<in> {PARAM_DOUBLE, PARAM_SINGLE_R, PARAM_SINGLE_L}"
    and "right_symbols i = Some rs"
    and "list_all isalpha (left_symbols i)" and "list_all isalpha rs"
    and "left_symbols i \<noteq> [] \<or> rs \<noteq> []"
  shows "\<exists>text. stringify_reaction i = Inr text
           \<and> parse_identifier (itype (forward_form i)) lineno text = Inr (forward_form i)"
proof (cases i)
  case (Identifier k l ro)
  with assms have ro: "ro = Some rs" and l: "list_all isalpha l" and ne: "l \<noteq> [] \<or> rs \<noteq> []"
    and k: "k = PARAM_DOUBLE \<or> k = PARAM_SINGLE_R \<or> k = PARAM_SINGLE_L"
    by auto
  note r = assms(4)
  from k show ?thesis
  proof (elim disjE)
    assume kd: "k = PARAM_DOUBLE"
    have "parse_identifier PARAM_DOUBLE lineno
            (join '' + '' l @ '' '' @ operator_of PARAM_DOUBLE @ '' '' @ join '' + '' rs)
          = Inr (Identifier PARAM_DOUBLE l (Some rs))"
      by (rule reparse_rendered[OF l r ne]) simp
    then show ?thesis
      by (simp add: Identifier ro kd stringify_reaction_def forward_form_def operator_of_def)
  next
    assume kr: "k = PARAM_SINGLE_R"
    have "parse_identifier PARAM_SINGLE_R lineno
            (join '' + '' l @ '' '' @ operator_of PARAM_SINGLE_R @ '' '' @ join '' + '' rs)
          = Inr (Identifier PARAM_SINGLE_R l (Some rs))"
      by (rule reparse_rendered[OF l r ne]) simp
    then show ?thesis
      by (simp add: Identifier ro kr stringify_reaction_def forward_form_def operator_of_def)
  next
    assume kl: "k = PARAM_SINGLE_L"
    from ne have ne': "rs \<noteq> [] \<or> l \<noteq> []" by blast
    have "parse_identifier PARAM_SINGLE_R lineno
            (join '' + '' rs @ '' '' @ operator_of PARAM_SINGLE_R @ '' '' @ join '' + '' l)
          = Inr (Identifier PARAM_SINGLE_R rs (Some l))"
      by (rule reparse_rendered[OF r l ne']) simp
    then show ?thesis
      by (simp add: Identifier ro kl stringify_reaction_def forward_form_def operator_of_def)
  qed
qed


theorem stringify_parse_roundtrip_witness:
  "itype (Identifier PARAM_SINGLE_L [''A'', ''B''] (Some [''C''])) \<in> {PARAM_DOUBLE, PARAM_SINGLE_R, PARAM_SINGLE_L}
   \<and> list_all isalpha [''A'', ''B''] \<and> list_all isalpha [''C'']
   \<and> stringify_reaction (Identifier PARAM_SINGLE_L [''A'', ''B''] (Some [''C''])) = Inr ''C -> A + B''
   \<and> parse_identifier PARAM_SINGLE_R 1 ''C -> A + B''
       = Inr (Identifier PARAM_SINGLE_R [''C''] (Some [''A'', ''B'']))"
proof -
  let ?i = "Identifier PARAM_SINGLE_L [''A'', ''B''] (Some [''C''])"
  have h1: "itype ?i \<in> {PARAM_DOUBLE, PARAM_SINGLE_R, PARAM_SINGLE_L}" by simp
  have h2: "right_symbols ?i = Some [''C'']" by simp
  have h3: "list_all isalpha (left_symbols ?i)" by (simp add: isalpha_def isalpha_char_def)
  have h4: "list_all isalpha [''C'']" by (simp add: isalpha_def isalpha_char_def)
  have h5: "left_symbols ?i \<noteq> [] \<or> [''C''] \<noteq> []" by simp
  have s: "stringify_reaction ?i = Inr ''C -> A + B''" by (simp add: stringify_reaction_def)
  have f: "forward_form ?i = Identifier PARAM_SINGLE_R [''C''] (Some [''A'', ''B''])"
    by (simp add: forward_form_def)
  from stringify_parse_roundtrip[OF h1 h2 h3 h4 h5, of 1] s f h1 h3 h4 show ?thesis by simp
qed

text \<open>
  The parser also returns identifiers that the data model excludes, and on those the
  round trip is lost. The name \<open>0 X <=> 0 Y\<close> is parsed to a two-way reaction without
  symbols; it renders to \<open> <=> \<close>, which is refused as an empty declaration. In
  \<open>2 + -> A\<close> the multiplier repeats the operator token after it, so the left side is
  \<open>+, +\<close>; it renders to \<open>+ + + -> A\<close>, whose left side is parsed to no symbol.
\<close>

lemma roundtrip_lost_on_empty_sides:
  "parse_name ''0 X <=> 0 Y'' 4 = Inr (Identifier PARAM_DOUBLE [] (Some []))
   \<and> stringify_reaction (Identifier PARAM_DOUBLE [] (Some [])) = Inr '' <=> ''
   \<and> parse_identifier PARAM_DOUBLE 4 '' <=> '' = Inl (formatted 4 ''Empty symbol declaration'')"
  by (simp add: parse_name_def get_identifier_type_def parse_identifier_def operator_of_def
      partition_str_def split_ws_def sort_out_def char_class_defs py_int_def digit_val_def
      max_str_digits_def stringify_reaction_def)

lemma roundtrip_lost_on_operator_symbols:
  "parse_name ''2 + -> A'' 4 = Inr (Identifier PARAM_SINGLE_R [''+'', ''+''] (Some [''A'']))
   \<and> stringify_reaction (Identifier PARAM_SINGLE_R [''+'', ''+''] (Some [''A'']))
       = Inr ''+ + + -> A''
   \<and> parse_identifier PARAM_SINGLE_R 4 ''+ + + -> A''
       = Inr (Identifier PARAM_SINGLE_R [] (Some [''A'']))"
  by (simp add: parse_name_def get_identifier_type_def parse_identifier_def operator_of_def
      partition_str_def split_ws_def sort_out_def char_class_defs py_int_def digit_val_def
      max_str_digits_def stringify_reaction_def numeral_2_eq_2)

end
